theory Spec2Isabelle
  imports Complex_Main
begin

section \<open>Phishguard scoring service (app.py)\<close>

text \<open>
  A shallow embedding of the scoring pipeline of \<^verbatim>\<open>app.py\<close>: the entropy of a domain
  label, the domain probes, the rule score, the risk label and the three endpoints.

  Conventions of the embedding:
  \<^item> a Python \<^verbatim>\<open>float\<close> is a \<^typ>\<open>real\<close>: rounding is not modelled, so an equation
    between scores is the exact one that the float computation approximates, and there
    is neither NaN nor a signed zero;
  \<^item> a Python \<^verbatim>\<open>int\<close> is an \<^typ>\<open>int\<close> (a \<^typ>\<open>nat\<close> for the counter of
    \<^verbatim>\<open>rule_score\<close>, which only grows from 0);
  \<^item> every exception is a value: a function that can raise returns \<open>exn + 'a\<close>, with
    \<open>Inl\<close> the exception that leaves the function;
  \<^item> the libraries the module calls (urlparse, tldextract, whois, dns.resolver, ssl and
    socket, the pickled scikit-learn objects) are parameters: a record \<open>world\<close> of
    what the calls answer, and a record \<open>globals\<close> of the five module-level model
    variables.
\<close>

subsection \<open>Exceptions and values\<close>

datatype exn =
    AttributeError string
  | ValueError
  | TypeError
  | IndexError
  | ZeroDivisionError
  | LibraryError

text \<open>
  What \<^verbatim>\<open>whois.whois(registered).creation_date\<close> can be: a datetime (naive or
  timezone-aware, as microseconds on the UTC time line), a list of such values, or
  anything else (None, a string).
\<close>

datatype pyval =
    PyDatetime bool int
  | PyList "pyval list"
  | PyOther

text \<open>The values of a response dictionary.\<close>

datatype json = Num real | Str string | Bool bool

type_synonym response = "string \<rightharpoonup> json"

subsection \<open>Lexical signal: \<^verbatim>\<open>shannon_entropy\<close>\<close>

text \<open>
  \<^verbatim>\<open>
  def shannon_entropy(s):
      if not s:
          return 0.0
      prob = [float(s.count(c)) / len(s) for c in set(s)]
      return -sum([p * math.log2(p) for p in prob])
  \<close>
  The division raises ZeroDivisionError on a zero divisor and \<^verbatim>\<open>math.log2\<close> raises
  ValueError outside its domain; both are branches of the model. \<^verbatim>\<open>set(s)\<close> is the
  list of the distinct characters of \<open>s\<close> (its order does not matter for a sum of reals).
\<close>

definition py_div :: "real \<Rightarrow> real \<Rightarrow> exn + real" where
  "py_div a b = (if b = 0 then Inl ZeroDivisionError else Inr (a / b))"

definition log2 :: "real \<Rightarrow> exn + real" where
  "log2 x = (if x \<le> 0 then Inl ValueError else Inr (log 2 x))"

text \<open>A list comprehension whose element expression can raise.\<close>

fun comprehension :: "('a \<Rightarrow> exn + 'b) \<Rightarrow> 'a list \<Rightarrow> exn + 'b list" where
  "comprehension f [] = Inr []"
| "comprehension f (x # xs) =
     (case f x of
        Inl e \<Rightarrow> Inl e
      | Inr y \<Rightarrow> (case comprehension f xs of Inl e \<Rightarrow> Inl e | Inr ys \<Rightarrow> Inr (y # ys)))"

definition shannon_entropy :: "'c list \<Rightarrow> exn + real" where
  "shannon_entropy s =
     (if s = [] then Inr 0
      else
        (case comprehension (\<lambda>c. py_div (real (count_list s c)) (real (length s))) (remdups s) of
           Inl e \<Rightarrow> Inl e
         | Inr prob \<Rightarrow>
             (case comprehension
                     (\<lambda>p. case log2 p of Inl e \<Rightarrow> Inl e | Inr l \<Rightarrow> Inr (p * l)) prob of
                Inl e \<Rightarrow> Inl e
              | Inr terms \<Rightarrow> Inr (- sum_list terms))))"

subsection \<open>Domain probes: \<^verbatim>\<open>extract_domain_info\<close>\<close>

text \<open>
  The outside world of one request. \<open>urlparse_netloc\<close> is \<^verbatim>\<open>urlparse(url).netloc\<close>
  (urlparse raises ValueError on some inputs, such as an unclosed IPv6 bracket);
  \<open>registered_domain\<close> is \<^verbatim>\<open>tldextract.extract(domain).registered_domain\<close>, the
  empty string when the input has no registrable domain; the three probes answer or
  raise; \<open>utcnow\<close> is the clock, in microseconds.
\<close>

record world =
  urlparse_netloc :: "string \<Rightarrow> exn + string"
  registered_domain :: "string \<Rightarrow> string"
  whois_creation_date :: "string \<Rightarrow> exn + pyval"
  dns_resolve :: "string \<Rightarrow> exn + unit"
  tls_connect :: "string \<Rightarrow> exn + unit"
  utcnow :: int

text \<open>The dictionary \<^verbatim>\<open>info\<close>, whose four keys are always set.\<close>

record domain_info =
  age :: "int option"
  dns :: bool
  ssl :: bool
  entropy :: real

text \<open>
  The body of the first \<^verbatim>\<open>try\<close>:
  \<^verbatim>\<open>
  w = whois.whois(registered)
  created = w.creation_date
  if isinstance(created, list):
      created = created[0]
  if isinstance(created, datetime):
      info["age"] = (now - created).days
  else:
      info["age"] = None
  \<close>
  \<^verbatim>\<open>created[0]\<close> raises IndexError on the empty list; subtracting an aware datetime
  from the naive \<^verbatim>\<open>utcnow()\<close> raises TypeError; \<^verbatim>\<open>.days\<close> is the floor of the
  difference in days.
\<close>

definition usec_per_day :: int where
  "usec_per_day = 86400000000"

definition first_if_list :: "pyval \<Rightarrow> exn + pyval" where
  "first_if_list created =
     (case created of
        PyList xs \<Rightarrow> (case xs of [] \<Rightarrow> Inl IndexError | x # _ \<Rightarrow> Inr x)
      | _ \<Rightarrow> Inr created)"

definition age_of :: "int \<Rightarrow> pyval \<Rightarrow> exn + int option" where
  "age_of now created =
     (case created of
        PyDatetime aware t \<Rightarrow>
          (if aware then Inl TypeError else Inr (Some ((now - t) div usec_per_day)))
      | _ \<Rightarrow> Inr None)"

definition try_age :: "world \<Rightarrow> string \<Rightarrow> exn + int option" where
  "try_age w registered =
     (case whois_creation_date w registered of
        Inl e \<Rightarrow> Inl e
      | Inr created \<Rightarrow>
          (case first_if_list created of
             Inl e \<Rightarrow> Inl e
           | Inr created' \<Rightarrow> age_of (utcnow w) created'))"

text \<open>\<^verbatim>\<open>registered.split(".")[0]\<close>: the text before the first dot.\<close>

definition first_label :: "string \<Rightarrow> string" where
  "first_label registered = takeWhile (\<lambda>c. c \<noteq> CHR ''.'') registered"

text \<open>
  Each bare \<^verbatim>\<open>except:\<close> catches whatever its \<^verbatim>\<open>try\<close> raised. urlparse and
  \<^verbatim>\<open>shannon_entropy\<close> are called outside every \<^verbatim>\<open>try\<close>.
\<close>

definition extract_domain_info :: "world \<Rightarrow> string \<Rightarrow> exn + domain_info" where
  "extract_domain_info w url =
     (case urlparse_netloc w url of
        Inl e \<Rightarrow> Inl e
      | Inr netloc \<Rightarrow>
          (let domain = (if netloc \<noteq> [] then netloc else url);
               registered = registered_domain w domain;
               info_age = (case try_age w registered of Inl _ \<Rightarrow> None | Inr a \<Rightarrow> a);
               info_dns = (case dns_resolve w registered of Inl _ \<Rightarrow> False | Inr _ \<Rightarrow> True);
               info_ssl = (case tls_connect w registered of Inl _ \<Rightarrow> False | Inr _ \<Rightarrow> True);
               label = first_label registered
           in (case shannon_entropy label of
                 Inl e \<Rightarrow> Inl e
               | Inr h \<Rightarrow>
                   Inr \<lparr>age = info_age, dns = info_dns, ssl = info_ssl, entropy = h\<rparr>)))"

subsection \<open>Rule score and risk label\<close>

definition rule_score :: "domain_info \<Rightarrow> real" where
  "rule_score info =
     (let score = (0::nat);
          total = (4::nat);
          score = (if (case age info of None \<Rightarrow> False | Some a \<Rightarrow> a < 30)
                   then score + 1 else score);
          score = (if \<not> dns info then score + 1 else score);
          score = (if \<not> ssl info then score + 1 else score);
          score = (if entropy info > 3.5 then score + 1 else score)
      in real score / real total)"

definition risk_level :: "real \<Rightarrow> string" where
  "risk_level prob =
     (if prob < 0.3 then ''LOW''
      else if prob < 0.6 then ''MEDIUM''
      else ''HIGH'')"

subsection \<open>Models and request schemas\<close>

text \<open>
  A loaded classifier is the function from a one-row feature matrix to the probability
  of the positive class, \<^verbatim>\<open>predict_proba(X)[0][1]\<close>; a loaded vectorizer is
  \<^verbatim>\<open>transform([text])\<close>. Neither is assumed to stay inside the unit interval. The five
  module-level variables are None until \<^verbatim>\<open>load_models\<close> has assigned them.
\<close>

type_synonym classifier = "real list \<Rightarrow> real"

type_synonym vectorizer = "string \<Rightarrow> real list"

record globals =
  url_model :: "classifier option"
  email_model :: "classifier option"
  coord_model :: "classifier option"
  url_vec :: "vectorizer option"
  email_vec :: "vectorizer option"


definition URL_BLEND :: real where
  "URL_BLEND = 0.3"

record URLRequest =
  url :: string

record EmailRequest =
  content :: string

record CombinedRequest =
  url :: string
  content :: string

text \<open>
  \<^verbatim>\<open>float(model.predict_proba(vec.transform([text]))[0][1])\<close>: Python looks up
  \<^verbatim>\<open>model.predict_proba\<close> first and \<^verbatim>\<open>vec.transform\<close> while it evaluates the
  argument; either lookup on None raises AttributeError.
\<close>

definition positive_proba :: "classifier option \<Rightarrow> vectorizer option \<Rightarrow> string \<Rightarrow> exn + real" where
  "positive_proba model vec text =
     (case model of
        None \<Rightarrow> Inl (AttributeError ''predict_proba'')
      | Some clf \<Rightarrow>
          (case vec of
             None \<Rightarrow> Inl (AttributeError ''transform'')
           | Some tf \<Rightarrow> Inr (clf (tf text))))"

subsection \<open>The three endpoints\<close>

definition scan_url :: "globals \<Rightarrow> world \<Rightarrow> URLRequest \<Rightarrow> exn + response" where
  "scan_url g w data =
     (case positive_proba (url_model g) (url_vec g) (URLRequest.url data) of
        Inl e \<Rightarrow> Inl e
      | Inr url_ml \<Rightarrow>
          (case extract_domain_info w (URLRequest.url data) of
             Inl e \<Rightarrow> Inl e
           | Inr info \<Rightarrow>
               (let domain_rule = rule_score info;
                    blended = (URL_BLEND * url_ml) + ((1 - URL_BLEND) * domain_rule)
                in Inr [''ml_score'' \<mapsto> Num url_ml,
                        ''domain_score'' \<mapsto> Num domain_rule,
                        ''blended_score'' \<mapsto> Num blended,
                        ''risk'' \<mapsto> Str (risk_level blended),
                        ''phishing'' \<mapsto> Bool (blended \<ge> 0.5)])))"

definition scan_email :: "globals \<Rightarrow> EmailRequest \<Rightarrow> exn + response" where
  "scan_email g data =
     (case positive_proba (email_model g) (email_vec g) (EmailRequest.content data) of
        Inl e \<Rightarrow> Inl e
      | Inr email_prob \<Rightarrow>
          Inr [''probability'' \<mapsto> Num email_prob,
               ''risk'' \<mapsto> Str (risk_level email_prob),
               ''phishing'' \<mapsto> Bool (email_prob \<ge> 0.5)])"

definition scan_combined :: "globals \<Rightarrow> CombinedRequest \<Rightarrow> exn + response" where
  "scan_combined g data =
     (case positive_proba (url_model g) (url_vec g) (CombinedRequest.url data) of
        Inl e \<Rightarrow> Inl e
      | Inr url_ml \<Rightarrow>
          (case positive_proba (email_model g) (email_vec g) (CombinedRequest.content data) of
             Inl e \<Rightarrow> Inl e
           | Inr email_prob \<Rightarrow>
               (let X_meta = [url_ml, email_prob, 1, 1]
                in (case coord_model g of
                      None \<Rightarrow> Inl (AttributeError ''predict_proba'')
                    | Some coord \<Rightarrow>
                        (let final_prob = coord X_meta
                         in Inr [''final_probability'' \<mapsto> Num final_prob,
                                 ''risk'' \<mapsto> Str (risk_level final_prob),
                                 ''phishing'' \<mapsto> Bool (final_prob \<ge> 0.5)])))))"

text \<open>
  The routes of the application: \<^verbatim>\<open>@app.post("/scan_url")\<close>,
  \<^verbatim>\<open>@app.post("/scan_email")\<close> and \<^verbatim>\<open>@app.post("/scan_combined")\<close>, each with a
  body that already has the fields of its schema. Only \<^verbatim>\<open>scan_url\<close> calls
  \<^verbatim>\<open>extract_domain_info\<close>, so only that route is given the world.
\<close>

datatype request =
    PostScanUrl URLRequest
  | PostScanEmail EmailRequest
  | PostScanCombined CombinedRequest

fun app :: "globals \<Rightarrow> world \<Rightarrow> request \<Rightarrow> exn + response" where
  "app g w (PostScanUrl data) = scan_url g w data"
| "app g w (PostScanEmail data) = scan_email g data"
| "app g w (PostScanCombined data) = scan_combined g data"

text \<open>
  The module registers no exception handler and raises no HTTPException, so the
  framework answers a returned dictionary with status 200 and an exception that leaves
  the handler with status 500.
\<close>

definition status_code :: "exn + response \<Rightarrow> nat" where
  "status_code r = (case r of Inl _ \<Rightarrow> 500 | Inr _ \<Rightarrow> 200)"

definition client_error :: "nat \<Rightarrow> bool" where
  "client_error code = (400 \<le> code \<and> code < 500)"


subsection \<open>Concrete inputs\<close>

text \<open>
  A small world for the closed instances below: one site is registered five days ago,
  resolves and answers on port 443; every other name fails all three probes; one string
  makes urlparse raise. The clock stands a microsecond after five full days.
\<close>

definition known_world :: world where
  "known_world =
     \<lparr>urlparse_netloc =
        (\<lambda>u. if u = ''https://www.aaa.com/login'' then Inr ''www.aaa.com''
             else if u = ''http://['' then Inl ValueError
             else Inr ''''),
      registered_domain = (\<lambda>d. if d = ''www.aaa.com'' then ''aaa.com'' else ''''),
      whois_creation_date =
        (\<lambda>r. if r = ''aaa.com'' then Inr (PyList [PyDatetime False 0]) else Inl LibraryError),
      dns_resolve = (\<lambda>r. if r = ''aaa.com'' then Inr () else Inl LibraryError),
      tls_connect = (\<lambda>r. if r = ''aaa.com'' then Inr () else Inl LibraryError),
      utcnow = 5 * usec_per_day + 1\<rparr>"

text \<open>
  Loaded models: constant base classifiers, and a coordinator that answers 0.8 on one
  input row only, so that its answer tells which row it was given.
\<close>

definition loaded_globals :: globals where
  "loaded_globals =
     \<lparr>url_model = Some (\<lambda>x. 0.9), email_model = Some (\<lambda>x. 0.55),
      coord_model = Some (\<lambda>x. if x = [0.9, 0.55, 1, 1] then 0.8 else 0),
      url_vec = Some (\<lambda>t. [real (length t)]),
      email_vec = Some (\<lambda>t. [real (length t)])\<rparr>"

section \<open>Properties\<close>

subsection \<open>Entropy\<close>

lemma comprehension_total:
  "(\<And>x. x \<in> set xs \<Longrightarrow> f x = Inr (g x)) \<Longrightarrow> comprehension f xs = Inr (map g xs)"
  by (induction xs) simp_all

lemma count_list_pos: "c \<in> set s \<Longrightarrow> 0 < count_list s c"
  by (induction s) auto

lemma frequency_pos:
  "c \<in> set s \<Longrightarrow> 0 < real (count_list s c) / real (length s)"
  using count_list_pos [of c s] by (cases s) simp_all

text \<open>
  Neither the division nor the logarithm ever raises: the divisor is the length of a
  non-empty string and every frequency is positive. The function returns the entropy
  of the character distribution.
\<close>

lemma shannon_entropy_returns:
  "shannon_entropy s =
     Inr (if s = [] then 0
          else - (\<Sum>c\<leftarrow>remdups s.
                    (real (count_list s c) / real (length s))
                      * log 2 (real (count_list s c) / real (length s))))"
proof (cases "s = []")
  case True
  then show ?thesis by (simp add: shannon_entropy_def)
next
  case False
  let ?fr = "\<lambda>c. real (count_list s c) / real (length s)"
  have prob:
    "comprehension (\<lambda>c. py_div (real (count_list s c)) (real (length s))) (remdups s)
       = Inr (map ?fr (remdups s))"
    using False by (intro comprehension_total) (simp add: py_div_def)
  have terms:
    "comprehension (\<lambda>p. case log2 p of Inl e \<Rightarrow> Inl e | Inr l \<Rightarrow> Inr (p * l))
         (map ?fr (remdups s))
       = Inr (map (\<lambda>p. p * log 2 p) (map ?fr (remdups s)))"
  proof (intro comprehension_total)
    fix p assume "p \<in> set (map ?fr (remdups s))"
    then have "0 < p" using frequency_pos by auto
    then show "(case log2 p of Inl e \<Rightarrow> Inl e | Inr l \<Rightarrow> Inr (p * l)) = Inr (p * log 2 p)"
      by (simp add: log2_def)
  qed
  show ?thesis using False
    by (simp add: shannon_entropy_def prob terms comp_def)
qed

lemma remdups_replicate_Suc: "remdups (replicate (Suc n) c) = [c]"
  by (induction n) simp_all

lemma count_list_replicate: "count_list (replicate n c) c = n"
  by (induction n) simp_all

text \<open>
  C10. The entropy of the empty string is 0, the entropy of a string that repeats one
  character is 0 whatever its length, and on every string the function returns a
  number (no branch of it raises).
\<close>

theorem shannon_entropy_degenerate:
  "shannon_entropy ([] :: 'c list) = Inr 0
   \<and> shannon_entropy (replicate n (c :: 'c)) = Inr 0
   \<and> (\<exists>h. shannon_entropy (s :: 'c list) = Inr h)"
proof (intro conjI)
  show "shannon_entropy ([] :: 'c list) = Inr 0"
    by (simp add: shannon_entropy_def)
  show "shannon_entropy (replicate n c) = Inr 0"
  proof (cases n)
    case 0
    then show ?thesis by (simp add: shannon_entropy_def)
  next
    case (Suc m)
    then show ?thesis
      by (simp only: shannon_entropy_returns remdups_replicate_Suc)
         (simp add: count_list_replicate [of "Suc m" c, simplified])
  qed
  show "\<exists>h. shannon_entropy s = Inr h"
    by (simp add: shannon_entropy_returns)
qed

theorem shannon_entropy_degenerate_witness:
  "shannon_entropy ''aaaa'' = Inr 0 \<and> shannon_entropy ''zz'' = Inr 0"
  using shannon_entropy_degenerate [of 4 "CHR ''a''" "[]"]
        shannon_entropy_degenerate [of 2 "CHR ''z''" "[]"]
  by (simp add: numeral_eq_Suc)

subsection \<open>Rule score\<close>

lemma rule_score_cases:
  "rule_score info =
     (of_bool (\<exists>a. age info = Some a \<and> a < 30) + of_bool (\<not> dns info)
        + of_bool (\<not> ssl info) + of_bool (entropy info > 3.5)) / 4"
  by (cases "age info") (simp_all add: rule_score_def Let_def)

lemma rule_score_range: "0 \<le> rule_score info \<and> rule_score info \<le> 1"
  by (simp add: rule_score_cases of_bool_def)

text \<open>
  C2. The rule score is the number of conditions that hold, of the four (the age is
  known and below 30; no DNS answer; no TLS endpoint; entropy above 3.5), divided by
  four; so it is one of 0, 0.25, 0.5, 0.75 and 1, and the record with age 5, no DNS,
  no TLS and entropy 4.0 scores 1.
\<close>

theorem rule_score_quarters:
  "rule_score info =
     real (length (filter id
       [\<exists>a. age info = Some a \<and> a < 30, \<not> dns info, \<not> ssl info, entropy info > 3.5])) / 4
   \<and> rule_score info \<in> {0, 0.25, 0.5, 0.75, 1}
   \<and> rule_score \<lparr>age = Some 5, dns = False, ssl = False, entropy = 4\<rparr> = 1"
  by (simp add: rule_score_cases of_bool_def)

subsection \<open>What the endpoints return\<close>

lemma positive_proba_Inr:
  "positive_proba model vec text = Inr p
     \<longleftrightarrow> (\<exists>clf tf. model = Some clf \<and> vec = Some tf \<and> p = clf (tf text))"
  by (auto simp: positive_proba_def split: option.splits)


lemma scan_url_loaded:
  assumes "url_model g = Some clf" and "url_vec g = Some tf"
    and "extract_domain_info w (URLRequest.url d) = Inr info"
  shows "scan_url g w d =
     Inr [''ml_score'' \<mapsto> Num (clf (tf (URLRequest.url d))),
          ''domain_score'' \<mapsto> Num (rule_score info),
          ''blended_score'' \<mapsto>
             Num (URL_BLEND * clf (tf (URLRequest.url d)) + (1 - URL_BLEND) * rule_score info),
          ''risk'' \<mapsto>
             Str (risk_level
               (URL_BLEND * clf (tf (URLRequest.url d)) + (1 - URL_BLEND) * rule_score info)),
          ''phishing'' \<mapsto>
             Bool (URL_BLEND * clf (tf (URLRequest.url d)) + (1 - URL_BLEND) * rule_score info
                     \<ge> 0.5)]"
  using assms by (simp add: scan_url_def positive_proba_def Let_def)

lemma scan_url_Inr:
  assumes "scan_url g w d = Inr r"
  obtains clf tf info where "url_model g = Some clf" and "url_vec g = Some tf"
    and "extract_domain_info w (URLRequest.url d) = Inr info"
proof -
  from assms obtain p where p: "positive_proba (url_model g) (url_vec g) (URLRequest.url d) = Inr p"
    by (auto simp: scan_url_def split: sum.splits)
  from assms obtain info where "extract_domain_info w (URLRequest.url d) = Inr info"
    by (auto simp: scan_url_def split: sum.splits)
  with p that show thesis
    by (auto simp: positive_proba_Inr)
qed

lemma scan_email_loaded:
  assumes "email_model g = Some clf" and "email_vec g = Some tf"
  shows "scan_email g d =
     Inr [''probability'' \<mapsto> Num (clf (tf (EmailRequest.content d))),
          ''risk'' \<mapsto> Str (risk_level (clf (tf (EmailRequest.content d)))),
          ''phishing'' \<mapsto> Bool (clf (tf (EmailRequest.content d)) \<ge> 0.5)]"
  using assms by (simp add: scan_email_def positive_proba_def)

lemma scan_email_Inr:
  assumes "scan_email g d = Inr r"
  obtains clf tf where "email_model g = Some clf" and "email_vec g = Some tf"
proof -
  from assms obtain p where
    "positive_proba (email_model g) (email_vec g) (EmailRequest.content d) = Inr p"
    by (auto simp: scan_email_def split: sum.splits)
  with that show thesis
    by (auto simp: positive_proba_Inr)
qed

lemma scan_combined_loaded:
  assumes "url_model g = Some uclf" and "url_vec g = Some utf"
    and "email_model g = Some eclf" and "email_vec g = Some etf"
    and "coord_model g = Some coord"
  shows "scan_combined g d =
     Inr [''final_probability'' \<mapsto>
             Num (coord [uclf (utf (CombinedRequest.url d)),
                         eclf (etf (CombinedRequest.content d)), 1, 1]),
          ''risk'' \<mapsto>
             Str (risk_level (coord [uclf (utf (CombinedRequest.url d)),
                                     eclf (etf (CombinedRequest.content d)), 1, 1])),
          ''phishing'' \<mapsto>
             Bool (coord [uclf (utf (CombinedRequest.url d)),
                          eclf (etf (CombinedRequest.content d)), 1, 1] \<ge> 0.5)]"
  using assms by (simp add: scan_combined_def positive_proba_def Let_def)

lemma scan_combined_Inr:
  assumes "scan_combined g d = Inr r"
  obtains uclf utf eclf etf coord where "url_model g = Some uclf" and "url_vec g = Some utf"
    and "email_model g = Some eclf" and "email_vec g = Some etf"
    and "coord_model g = Some coord"
proof -
  from assms obtain p where
    p: "positive_proba (url_model g) (url_vec g) (CombinedRequest.url d) = Inr p"
    by (auto simp: scan_combined_def split: sum.splits)
  from assms obtain q where
    q: "positive_proba (email_model g) (email_vec g) (CombinedRequest.content d) = Inr q"
    by (auto simp: scan_combined_def split: sum.splits)
  from assms obtain coord where "coord_model g = Some coord"
    by (auto simp: scan_combined_def Let_def split: sum.splits option.splits)
  with p q that show thesis
    by (auto simp: positive_proba_Inr)
qed

subsection \<open>The concrete world\<close>

lemma extract_known:
  "extract_domain_info known_world ''https://www.aaa.com/login''
     = Inr \<lparr>age = Some 5, dns = True, ssl = True, entropy = 0\<rparr>"
  by (simp add: extract_domain_info_def known_world_def Let_def try_age_def first_if_list_def
        age_of_def first_label_def shannon_entropy_def py_div_def log2_def usec_per_day_def)

lemma extract_unknown:
  "extract_domain_info known_world ''not a url''
     = Inr \<lparr>age = None, dns = False, ssl = False, entropy = 0\<rparr>"
  by (simp add: extract_domain_info_def known_world_def Let_def try_age_def first_if_list_def
        age_of_def first_label_def shannon_entropy_def)

lemma loaded_globals_simps:
  "url_model loaded_globals = Some (\<lambda>x. 0.9)"
  "email_model loaded_globals = Some (\<lambda>x. 0.55)"
  "coord_model loaded_globals = Some (\<lambda>x. if x = [0.9, 0.55, 1, 1] then 0.8 else 0)"
  "url_vec loaded_globals = Some (\<lambda>t. [real (length t)])"
  "email_vec loaded_globals = Some (\<lambda>t. [real (length t)])"
  by (simp_all add: loaded_globals_def)

subsection \<open>The URL blend\<close>

text \<open>
  C1. With the URL model loaded and the domain signals extracted, \<^verbatim>\<open>/scan_url\<close>
  answers with \<open>ml_score\<close> the classifier's probability \<open>p\<close>, \<open>domain_score\<close> the rule
  score \<open>q\<close> and \<open>blended_score\<close> the blend \<open>URL_BLEND * p + (1 - URL_BLEND) * q\<close>, where
  \<open>URL_BLEND\<close> is 0.3, so the blend is \<open>0.3 * p + 0.7 * q\<close>.
\<close>

theorem scan_url_blend:
  assumes "url_model g = Some clf" and "url_vec g = Some tf"
    and "extract_domain_info w (URLRequest.url d) = Inr info"
    and "p = clf (tf (URLRequest.url d))" and "q = rule_score info"
  shows "URL_BLEND = 0.3
     \<and> (\<exists>r. scan_url g w d = Inr r
           \<and> r ''ml_score'' = Some (Num p)
           \<and> r ''domain_score'' = Some (Num q)
           \<and> r ''blended_score'' = Some (Num (URL_BLEND * p + (1 - URL_BLEND) * q))
           \<and> r ''blended_score'' = Some (Num (0.3 * p + 0.7 * q)))"
proof -
  have blend: "URL_BLEND * p + (1 - URL_BLEND) * q = 0.3 * p + 0.7 * q"
    by (simp add: URL_BLEND_def)
  show ?thesis
    unfolding scan_url_loaded [OF assms(1-3)] assms(4,5) [symmetric] blend
    by (simp add: URL_BLEND_def)
qed

theorem scan_url_blend_witness:
  "extract_domain_info known_world ''https://www.aaa.com/login''
      = Inr \<lparr>age = Some 5, dns = True, ssl = True, entropy = 0\<rparr>
   \<and> (\<exists>r. scan_url loaded_globals known_world \<lparr>URLRequest.url = ''https://www.aaa.com/login''\<rparr>
              = Inr r
         \<and> r ''ml_score'' = Some (Num 0.9)
         \<and> r ''domain_score'' = Some (Num 0.25)
         \<and> r ''blended_score'' = Some (Num 0.445))"
  using scan_url_blend [of loaded_globals "\<lambda>x. 0.9" "\<lambda>t. [real (length t)]" known_world
      "\<lparr>URLRequest.url = ''https://www.aaa.com/login''\<rparr>"
      "\<lparr>age = Some 5, dns = True, ssl = True, entropy = 0\<rparr>" "0.9" "0.25"]
  by (auto simp add: loaded_globals_simps extract_known rule_score_cases)

subsection \<open>Risk label and phishing flag\<close>

text \<open>
  C4. \<^verbatim>\<open>risk_level\<close> gives every number one of the three labels: LOW below 0.3,
  MEDIUM from 0.3 up to but not including 0.6, HIGH from 0.6 on. Every response that
  an endpoint returns carries the label of its final score: of \<open>blended_score\<close> for
  \<^verbatim>\<open>/scan_url\<close>, of \<open>probability\<close> for \<^verbatim>\<open>/scan_email\<close>, of \<open>final_probability\<close> for
  \<^verbatim>\<open>/scan_combined\<close>.
\<close>

theorem risk_level_total:
  "(x < 0.3 \<longrightarrow> risk_level x = ''LOW'')
   \<and> (0.3 \<le> x \<and> x < 0.6 \<longrightarrow> risk_level x = ''MEDIUM'')
   \<and> (0.6 \<le> x \<longrightarrow> risk_level x = ''HIGH'')
   \<and> risk_level x \<in> {''LOW'', ''MEDIUM'', ''HIGH''}
   \<and> (scan_url g w du = Inr ru \<longrightarrow>
        (\<exists>b. ru ''blended_score'' = Some (Num b) \<and> ru ''risk'' = Some (Str (risk_level b))))
   \<and> (scan_email g de = Inr re \<longrightarrow>
        (\<exists>b. re ''probability'' = Some (Num b) \<and> re ''risk'' = Some (Str (risk_level b))))
   \<and> (scan_combined g dc = Inr rc \<longrightarrow>
        (\<exists>b. rc ''final_probability'' = Some (Num b) \<and> rc ''risk'' = Some (Str (risk_level b))))"
proof (intro conjI impI)
  show "risk_level x \<in> {''LOW'', ''MEDIUM'', ''HIGH''}"
    by (simp add: risk_level_def)
next
  assume r: "scan_url g w du = Inr ru"
  then obtain clf tf info where "url_model g = Some clf" "url_vec g = Some tf"
    "extract_domain_info w (URLRequest.url du) = Inr info"
    by (rule scan_url_Inr)
  from scan_url_loaded [OF this] r
  show "\<exists>b. ru ''blended_score'' = Some (Num b) \<and> ru ''risk'' = Some (Str (risk_level b))"
    by auto
next
  assume r: "scan_email g de = Inr re"
  then obtain clf tf where "email_model g = Some clf" "email_vec g = Some tf"
    by (rule scan_email_Inr)
  from scan_email_loaded [OF this] r
  show "\<exists>b. re ''probability'' = Some (Num b) \<and> re ''risk'' = Some (Str (risk_level b))"
    by auto
next
  assume r: "scan_combined g dc = Inr rc"
  then obtain uclf utf eclf etf coord where "url_model g = Some uclf" "url_vec g = Some utf"
    "email_model g = Some eclf" "email_vec g = Some etf" "coord_model g = Some coord"
    by (rule scan_combined_Inr)
  from scan_combined_loaded [OF this] r
  show "\<exists>b. rc ''final_probability'' = Some (Num b) \<and> rc ''risk'' = Some (Str (risk_level b))"
    by auto
qed (simp_all add: risk_level_def)

theorem risk_level_total_witness:
  "risk_level 0.1 = ''LOW'' \<and> risk_level 0.3 = ''MEDIUM'' \<and> risk_level 0.6 = ''HIGH''
   \<and> (\<exists>r. scan_url loaded_globals known_world \<lparr>URLRequest.url = ''not a url''\<rparr> = Inr r
          \<and> r ''blended_score'' = Some (Num 0.62) \<and> r ''risk'' = Some (Str ''HIGH''))
   \<and> (\<exists>r. scan_email loaded_globals \<lparr>EmailRequest.content = ''hello''\<rparr> = Inr r
          \<and> r ''probability'' = Some (Num 0.55) \<and> r ''risk'' = Some (Str ''MEDIUM''))
   \<and> (\<exists>r. scan_combined loaded_globals
               \<lparr>CombinedRequest.url = ''not a url'', content = ''hello''\<rparr> = Inr r
          \<and> r ''final_probability'' = Some (Num 0.8) \<and> r ''risk'' = Some (Str ''HIGH''))"
proof -
  let ?du = "\<lparr>URLRequest.url = ''not a url''\<rparr>"
  let ?de = "\<lparr>EmailRequest.content = ''hello''\<rparr>"
  let ?dc = "\<lparr>CombinedRequest.url = ''not a url'', content = ''hello''\<rparr>"
  obtain ru where ru: "scan_url loaded_globals known_world ?du = Inr ru"
    using scan_url_loaded [OF loaded_globals_simps(1) loaded_globals_simps(4), of known_world ?du]
    by (simp add: extract_unknown)
  obtain re where re: "scan_email loaded_globals ?de = Inr re"
    using scan_email_loaded [OF loaded_globals_simps(2) loaded_globals_simps(5)] by simp
  obtain rc where rc: "scan_combined loaded_globals ?dc = Inr rc"
    using scan_combined_loaded [OF loaded_globals_simps(1) loaded_globals_simps(4)
        loaded_globals_simps(2) loaded_globals_simps(5) loaded_globals_simps(3)] by simp
  have vu: "ru ''blended_score'' = Some (Num 0.62)"
    using ru scan_url_loaded [OF loaded_globals_simps(1) loaded_globals_simps(4), of known_world ?du]
    by (auto simp add: extract_unknown rule_score_cases URL_BLEND_def)
  have ve: "re ''probability'' = Some (Num 0.55)"
    using re scan_email_loaded [OF loaded_globals_simps(2) loaded_globals_simps(5), of ?de]
    by auto
  have vc: "rc ''final_probability'' = Some (Num 0.8)"
    using rc scan_combined_loaded [OF loaded_globals_simps(1) loaded_globals_simps(4)
        loaded_globals_simps(2) loaded_globals_simps(5) loaded_globals_simps(3), of ?dc]
    by auto
  show ?thesis
    using risk_level_total [of "0.1" loaded_globals known_world ?du ru ?de re ?dc rc]
      risk_level_total [of "0.3" loaded_globals known_world ?du ru ?de re ?dc rc]
      risk_level_total [of "0.6" loaded_globals known_world ?du ru ?de re ?dc rc]
      ru re rc vu ve vc
    by (auto simp add: risk_level_def)
qed

text \<open>
  C5. In every response the flag \<open>phishing\<close> tells whether the final score of that
  endpoint is at least 0.5, whatever the risk label is; a score from 0.5 up to but not
  including 0.6 is flagged as phishing and labelled MEDIUM.
\<close>

theorem phishing_flag_threshold:
  "(scan_url g w du = Inr ru \<longrightarrow>
      (\<exists>b. ru ''blended_score'' = Some (Num b) \<and> ru ''phishing'' = Some (Bool (b \<ge> 0.5))
          \<and> (0.5 \<le> b \<and> b < 0.6 \<longrightarrow>
                ru ''phishing'' = Some (Bool True) \<and> ru ''risk'' = Some (Str ''MEDIUM''))))
   \<and> (scan_email g de = Inr re \<longrightarrow>
      (\<exists>b. re ''probability'' = Some (Num b) \<and> re ''phishing'' = Some (Bool (b \<ge> 0.5))
          \<and> (0.5 \<le> b \<and> b < 0.6 \<longrightarrow>
                re ''phishing'' = Some (Bool True) \<and> re ''risk'' = Some (Str ''MEDIUM''))))
   \<and> (scan_combined g dc = Inr rc \<longrightarrow>
      (\<exists>b. rc ''final_probability'' = Some (Num b) \<and> rc ''phishing'' = Some (Bool (b \<ge> 0.5))
          \<and> (0.5 \<le> b \<and> b < 0.6 \<longrightarrow>
                rc ''phishing'' = Some (Bool True) \<and> rc ''risk'' = Some (Str ''MEDIUM''))))"
proof (intro conjI impI)
  assume r: "scan_url g w du = Inr ru"
  then obtain clf tf info where "url_model g = Some clf" "url_vec g = Some tf"
    "extract_domain_info w (URLRequest.url du) = Inr info"
    by (rule scan_url_Inr)
  from scan_url_loaded [OF this] r
  show "\<exists>b. ru ''blended_score'' = Some (Num b) \<and> ru ''phishing'' = Some (Bool (b \<ge> 0.5))
          \<and> (0.5 \<le> b \<and> b < 0.6 \<longrightarrow>
                ru ''phishing'' = Some (Bool True) \<and> ru ''risk'' = Some (Str ''MEDIUM''))"
    by (auto simp add: risk_level_def)
next
  assume r: "scan_email g de = Inr re"
  then obtain clf tf where "email_model g = Some clf" "email_vec g = Some tf"
    by (rule scan_email_Inr)
  from scan_email_loaded [OF this] r
  show "\<exists>b. re ''probability'' = Some (Num b) \<and> re ''phishing'' = Some (Bool (b \<ge> 0.5))
          \<and> (0.5 \<le> b \<and> b < 0.6 \<longrightarrow>
                re ''phishing'' = Some (Bool True) \<and> re ''risk'' = Some (Str ''MEDIUM''))"
    by (auto simp add: risk_level_def)
next
  assume r: "scan_combined g dc = Inr rc"
  then obtain uclf utf eclf etf coord where "url_model g = Some uclf" "url_vec g = Some utf"
    "email_model g = Some eclf" "email_vec g = Some etf" "coord_model g = Some coord"
    by (rule scan_combined_Inr)
  from scan_combined_loaded [OF this] r
  show "\<exists>b. rc ''final_probability'' = Some (Num b) \<and> rc ''phishing'' = Some (Bool (b \<ge> 0.5))
          \<and> (0.5 \<le> b \<and> b < 0.6 \<longrightarrow>
                rc ''phishing'' = Some (Bool True) \<and> rc ''risk'' = Some (Str ''MEDIUM''))"
    by (auto simp add: risk_level_def)
qed

theorem phishing_flag_threshold_witness:
  "(\<exists>r. scan_url loaded_globals known_world \<lparr>URLRequest.url = ''https://www.aaa.com/login''\<rparr>
           = Inr r
       \<and> r ''blended_score'' = Some (Num 0.445) \<and> r ''phishing'' = Some (Bool False)
       \<and> r ''risk'' = Some (Str ''MEDIUM''))
   \<and> (\<exists>r. scan_email loaded_globals \<lparr>EmailRequest.content = ''hello''\<rparr> = Inr r
       \<and> r ''probability'' = Some (Num 0.55) \<and> r ''phishing'' = Some (Bool True)
       \<and> r ''risk'' = Some (Str ''MEDIUM''))
   \<and> (\<exists>r. scan_combined loaded_globals
               \<lparr>CombinedRequest.url = ''not a url'', content = ''hello''\<rparr> = Inr r
       \<and> r ''final_probability'' = Some (Num 0.8) \<and> r ''phishing'' = Some (Bool True)
       \<and> r ''risk'' = Some (Str ''HIGH''))"
proof -
  let ?du = "\<lparr>URLRequest.url = ''https://www.aaa.com/login''\<rparr>"
  let ?de = "\<lparr>EmailRequest.content = ''hello''\<rparr>"
  let ?dc = "\<lparr>CombinedRequest.url = ''not a url'', content = ''hello''\<rparr>"
  note su = scan_url_loaded [OF loaded_globals_simps(1) loaded_globals_simps(4),
      of known_world ?du "\<lparr>age = Some 5, dns = True, ssl = True, entropy = 0\<rparr>"]
  note se = scan_email_loaded [OF loaded_globals_simps(2) loaded_globals_simps(5), of ?de]
  note sc = scan_combined_loaded [OF loaded_globals_simps(1) loaded_globals_simps(4)
      loaded_globals_simps(2) loaded_globals_simps(5) loaded_globals_simps(3), of ?dc]
  obtain ru where ru: "scan_url loaded_globals known_world ?du = Inr ru"
    using su by (simp add: extract_known)
  obtain re where re: "scan_email loaded_globals ?de = Inr re"
    using se by simp
  obtain rc where rc: "scan_combined loaded_globals ?dc = Inr rc"
    using sc by simp
  have vu: "ru ''blended_score'' = Some (Num 0.445) \<and> ru ''risk'' = Some (Str ''MEDIUM'')"
    using ru su by (auto simp add: extract_known rule_score_cases URL_BLEND_def risk_level_def)
  have ve: "re ''probability'' = Some (Num 0.55) \<and> re ''risk'' = Some (Str ''MEDIUM'')"
    using re se by (auto simp add: risk_level_def)
  have vc: "rc ''final_probability'' = Some (Num 0.8) \<and> rc ''risk'' = Some (Str ''HIGH'')"
    using rc sc by (auto simp add: risk_level_def)
  show ?thesis
    using phishing_flag_threshold [of loaded_globals known_world ?du ru ?de re ?dc rc]
      ru re rc vu ve vc
    by auto
qed

subsection \<open>The coordinator\<close>

text \<open>
  C3. With the five models loaded, \<^verbatim>\<open>/scan_combined\<close> answers with the coordinator's
  probability on the row \<open>[url_ml, email_prob, 1, 1]\<close>, for whatever function the
  coordinator is. The world of the domain probes has no part in the answer, and two
  requests with the same two ML probabilities and the same coordinator get the same
  answer.
\<close>

theorem coordinator_input:
  assumes "url_model g = Some uclf" and "url_vec g = Some utf"
    and "email_model g = Some eclf" and "email_vec g = Some etf"
    and "coord_model g = Some coord"
  shows "(\<exists>r. scan_combined g d = Inr r
           \<and> r ''final_probability'' =
               Some (Num (coord [uclf (utf (CombinedRequest.url d)),
                                 eclf (etf (CombinedRequest.content d)), 1, 1])))
     \<and> app g w (PostScanCombined d) = app g w' (PostScanCombined d)
     \<and> (url_model g' = Some uclf' \<and> url_vec g' = Some utf'
          \<and> email_model g' = Some eclf' \<and> email_vec g' = Some etf'
          \<and> coord_model g' = Some coord
          \<and> uclf' (utf' (CombinedRequest.url d')) = uclf (utf (CombinedRequest.url d))
          \<and> eclf' (etf' (CombinedRequest.content d')) = eclf (etf (CombinedRequest.content d))
        \<longrightarrow> scan_combined g' d' = scan_combined g d)"
proof (intro conjI impI)
  show "\<exists>r. scan_combined g d = Inr r
           \<and> r ''final_probability'' =
               Some (Num (coord [uclf (utf (CombinedRequest.url d)),
                                 eclf (etf (CombinedRequest.content d)), 1, 1]))"
    unfolding scan_combined_loaded [OF assms] by simp
  show "app g w (PostScanCombined d) = app g w' (PostScanCombined d)"
    by simp
next
  assume g': "url_model g' = Some uclf' \<and> url_vec g' = Some utf'
          \<and> email_model g' = Some eclf' \<and> email_vec g' = Some etf'
          \<and> coord_model g' = Some coord
          \<and> uclf' (utf' (CombinedRequest.url d')) = uclf (utf (CombinedRequest.url d))
          \<and> eclf' (etf' (CombinedRequest.content d')) = eclf (etf (CombinedRequest.content d))"
  then have "scan_combined g' d' =
     Inr [''final_probability'' \<mapsto>
             Num (coord [uclf' (utf' (CombinedRequest.url d')),
                         eclf' (etf' (CombinedRequest.content d')), 1, 1]),
          ''risk'' \<mapsto>
             Str (risk_level (coord [uclf' (utf' (CombinedRequest.url d')),
                                     eclf' (etf' (CombinedRequest.content d')), 1, 1])),
          ''phishing'' \<mapsto>
             Bool (coord [uclf' (utf' (CombinedRequest.url d')),
                          eclf' (etf' (CombinedRequest.content d')), 1, 1] \<ge> 0.5)]"
    by (intro scan_combined_loaded) simp_all
  with g' show "scan_combined g' d' = scan_combined g d"
    by (simp add: scan_combined_loaded [OF assms])
qed

theorem coordinator_input_witness:
  "(\<exists>r. scan_combined loaded_globals
             \<lparr>CombinedRequest.url = ''not a url'', content = ''hello''\<rparr> = Inr r
        \<and> r ''final_probability'' = Some (Num 0.8))
   \<and> app loaded_globals known_world
        (PostScanCombined \<lparr>CombinedRequest.url = ''not a url'', content = ''hello''\<rparr>)
     = app loaded_globals (known_world\<lparr>utcnow := 0\<rparr>)
        (PostScanCombined \<lparr>CombinedRequest.url = ''not a url'', content = ''hello''\<rparr>)
   \<and> scan_combined loaded_globals \<lparr>CombinedRequest.url = ''http://['', content = ''bye''\<rparr>
     = scan_combined loaded_globals \<lparr>CombinedRequest.url = ''not a url'', content = ''hello''\<rparr>"
  using coordinator_input [OF loaded_globals_simps(1) loaded_globals_simps(4)
      loaded_globals_simps(2) loaded_globals_simps(5) loaded_globals_simps(3),
      of "\<lparr>CombinedRequest.url = ''not a url'', content = ''hello''\<rparr>"
         known_world "known_world\<lparr>utcnow := 0\<rparr>"
         loaded_globals "\<lambda>x. 0.9" "\<lambda>t. [real (length t)]" "\<lambda>x. 0.55" "\<lambda>t. [real (length t)]"
         "\<lparr>CombinedRequest.url = ''http://['', content = ''bye''\<rparr>"]
  by (simp add: loaded_globals_simps)

subsection \<open>Probe failures\<close>

lemma extract_domain_info_parsed:
  assumes "urlparse_netloc w u = Inr netloc"
  shows "extract_domain_info w u =
     Inr \<lparr>age = (case try_age w (registered_domain w (if netloc \<noteq> [] then netloc else u)) of
                   Inl _ \<Rightarrow> None | Inr a \<Rightarrow> a),
          dns = (case dns_resolve w (registered_domain w (if netloc \<noteq> [] then netloc else u)) of
                   Inl _ \<Rightarrow> False | Inr _ \<Rightarrow> True),
          ssl = (case tls_connect w (registered_domain w (if netloc \<noteq> [] then netloc else u)) of
                   Inl _ \<Rightarrow> False | Inr _ \<Rightarrow> True),
          entropy = (if first_label (registered_domain w (if netloc \<noteq> [] then netloc else u)) = []
                     then 0
                     else - (\<Sum>c\<leftarrow>remdups (first_label (registered_domain w (if netloc \<noteq> [] then netloc else u))).
                       (real (count_list (first_label (registered_domain w (if netloc \<noteq> [] then netloc else u))) c)
                          / real (length (first_label (registered_domain w (if netloc \<noteq> [] then netloc else u)))))
                       * log 2 (real (count_list (first_label (registered_domain w (if netloc \<noteq> [] then netloc else u))) c)
                          / real (length (first_label (registered_domain w (if netloc \<noteq> [] then netloc else u)))))))\<rparr>"
  using assms by (simp add: extract_domain_info_def Let_def shannon_entropy_returns)



subsection \<open>Requests before the models are loaded\<close>

lemma status_code_cases: "status_code r = 500 \<or> status_code r = 200"
  by (cases r) (simp_all add: status_code_def)





subsection \<open>A URL without a registrable domain\<close>

text \<open>
  C8, as the code has it. With the URL model loaded, a URL that urlparse accepts and
  that has no registrable domain is scored like any other: the classifier runs on the
  raw string, the probes run on the empty name, the entropy of the empty label is 0,
  and the response carries the blend of the two scores with status 200, which is not
  a client error.
\<close>

theorem no_registrable_domain_scored:
  assumes "url_model g = Some clf" and "url_vec g = Some tf"
    and "urlparse_netloc w u = Inr netloc"
    and "registered_domain w (if netloc \<noteq> [] then netloc else u) = []"
  shows "(\<exists>info r. extract_domain_info w u = Inr info \<and> entropy info = 0
      \<and> scan_url g w \<lparr>URLRequest.url = u\<rparr> = Inr r
      \<and> r ''ml_score'' = Some (Num (clf (tf u)))
      \<and> r ''domain_score'' = Some (Num (rule_score info))
      \<and> r ''blended_score'' = Some (Num (0.3 * clf (tf u) + 0.7 * rule_score info))
      \<and> status_code (scan_url g w \<lparr>URLRequest.url = u\<rparr>) = 200)
    \<and> \<not> client_error (status_code (scan_url g w \<lparr>URLRequest.url = u\<rparr>))"
proof (intro conjI)
  from assms(3,4) obtain info where
    info: "extract_domain_info w u = Inr info" and h: "entropy info = 0"
    by (simp add: extract_domain_info_parsed first_label_def)
  from info have ex: "extract_domain_info w (URLRequest.url \<lparr>URLRequest.url = u\<rparr>) = Inr info"
    by simp
  show "\<exists>info r. extract_domain_info w u = Inr info \<and> entropy info = 0
      \<and> scan_url g w \<lparr>URLRequest.url = u\<rparr> = Inr r
      \<and> r ''ml_score'' = Some (Num (clf (tf u)))
      \<and> r ''domain_score'' = Some (Num (rule_score info))
      \<and> r ''blended_score'' = Some (Num (0.3 * clf (tf u) + 0.7 * rule_score info))
      \<and> status_code (scan_url g w \<lparr>URLRequest.url = u\<rparr>) = 200"
    using info h
    by (simp add: scan_url_loaded [OF assms(1,2) ex] status_code_def URL_BLEND_def)
  show "\<not> client_error (status_code (scan_url g w \<lparr>URLRequest.url = u\<rparr>))"
    using status_code_cases [of "scan_url g w \<lparr>URLRequest.url = u\<rparr>"]
    by (auto simp add: client_error_def)
qed

theorem no_registrable_domain_scored_witness:
  "urlparse_netloc known_world ''not a url'' = Inr ''''
   \<and> registered_domain known_world ''not a url'' = ''''
   \<and> (\<exists>info r. extract_domain_info known_world ''not a url'' = Inr info \<and> entropy info = 0
        \<and> scan_url loaded_globals known_world \<lparr>URLRequest.url = ''not a url''\<rparr> = Inr r
        \<and> r ''ml_score'' = Some (Num 0.9)
        \<and> r ''domain_score'' = Some (Num (rule_score info))
        \<and> r ''blended_score'' = Some (Num (0.3 * 0.9 + 0.7 * rule_score info))
        \<and> status_code (scan_url loaded_globals known_world \<lparr>URLRequest.url = ''not a url''\<rparr>)
            = 200)"
proof -
  have p: "urlparse_netloc known_world ''not a url'' = Inr ''''"
    by (simp add: known_world_def)
  have r: "registered_domain known_world (if '''' \<noteq> [] then '''' else ''not a url'') = []"
    by (simp add: known_world_def)
  show ?thesis
    using no_registrable_domain_scored
      [OF loaded_globals_simps(1) loaded_globals_simps(4) p r] p r
    by simp
qed

text \<open>
  The claim as it is written fails on a string that has neither a network authority
  nor a registrable domain: it is classified, rule-scored (the three failed probes give
  0.5) and blended, and the answer is a response with status 200.
\<close>

theorem malformed_url_counterexample:
  "urlparse_netloc known_world ''not a url'' = Inr ''''
   \<and> registered_domain known_world ''not a url'' = ''''
   \<and> (\<exists>r. scan_url loaded_globals known_world \<lparr>URLRequest.url = ''not a url''\<rparr> = Inr r
        \<and> r ''ml_score'' = Some (Num 0.9)
        \<and> r ''domain_score'' = Some (Num 0.5)
        \<and> r ''blended_score'' = Some (Num 0.62))
   \<and> \<not> client_error (status_code
        (scan_url loaded_globals known_world \<lparr>URLRequest.url = ''not a url''\<rparr>))"
proof -
  have s: "scan_url loaded_globals known_world \<lparr>URLRequest.url = ''not a url''\<rparr> =
     Inr [''ml_score'' \<mapsto> Num 0.9, ''domain_score'' \<mapsto> Num 0.5,
          ''blended_score'' \<mapsto> Num 0.62, ''risk'' \<mapsto> Str ''HIGH'',
          ''phishing'' \<mapsto> Bool True]"
    using scan_url_loaded [OF loaded_globals_simps(1) loaded_globals_simps(4),
        of known_world "\<lparr>URLRequest.url = ''not a url''\<rparr>"
           "\<lparr>age = None, dns = False, ssl = False, entropy = 0\<rparr>"]
    by (simp add: extract_unknown rule_score_cases URL_BLEND_def risk_level_def)
  show ?thesis
    unfolding s by (simp add: known_world_def status_code_def client_error_def)
qed

subsection \<open>No clamping\<close>

text \<open>
  C9, as the code has it. No clamping step is applied: \<open>ml_score\<close>, the operand of the
  blend, is the value the URL classifier returned, whatever it is. The rule score
  always lies in the unit interval, and so does the blended score whenever the
  classifier's value does.
\<close>

theorem blend_in_unit_interval:
  assumes "scan_url g w d = Inr r"
  shows "\<exists>clf tf info b. url_model g = Some clf \<and> url_vec g = Some tf
      \<and> extract_domain_info w (URLRequest.url d) = Inr info
      \<and> r ''ml_score'' = Some (Num (clf (tf (URLRequest.url d))))
      \<and> r ''domain_score'' = Some (Num (rule_score info))
      \<and> 0 \<le> rule_score info \<and> rule_score info \<le> 1
      \<and> r ''blended_score'' = Some (Num b)
      \<and> b = 0.3 * clf (tf (URLRequest.url d)) + 0.7 * rule_score info
      \<and> (0 \<le> clf (tf (URLRequest.url d)) \<and> clf (tf (URLRequest.url d)) \<le> 1
            \<longrightarrow> 0 \<le> b \<and> b \<le> 1)"
proof -
  from assms obtain clf tf info where
    l: "url_model g = Some clf" "url_vec g = Some tf"
       "extract_domain_info w (URLRequest.url d) = Inr info"
    by (rule scan_url_Inr)
  let ?p = "clf (tf (URLRequest.url d))"
  let ?q = "rule_score info"
  have q: "0 \<le> ?q \<and> ?q \<le> 1"
    by (rule rule_score_range)
  have b: "0 \<le> ?p \<and> ?p \<le> 1 \<longrightarrow> 0 \<le> 0.3 * ?p + 0.7 * ?q \<and> 0.3 * ?p + 0.7 * ?q \<le> 1"
    using q by auto
  from assms scan_url_loaded [OF l] have
    "r ''ml_score'' = Some (Num ?p) \<and> r ''domain_score'' = Some (Num ?q)
      \<and> r ''blended_score'' = Some (Num (0.3 * ?p + 0.7 * ?q))"
    by (auto simp add: URL_BLEND_def)
  with l q b show ?thesis
    by blast
qed

theorem blend_in_unit_interval_witness:
  "\<exists>r. scan_url loaded_globals known_world \<lparr>URLRequest.url = ''https://www.aaa.com/login''\<rparr>
          = Inr r
      \<and> r ''ml_score'' = Some (Num 0.9)
      \<and> r ''blended_score'' = Some (Num 0.445)"
proof -
  let ?d = "\<lparr>URLRequest.url = ''https://www.aaa.com/login''\<rparr>"
  note s = scan_url_loaded [OF loaded_globals_simps(1) loaded_globals_simps(4),
      of known_world ?d "\<lparr>age = Some 5, dns = True, ssl = True, entropy = 0\<rparr>"]
  obtain r where r: "scan_url loaded_globals known_world ?d = Inr r"
    using s by (simp add: extract_known)
  show ?thesis
    using blend_in_unit_interval [OF r] r
    by (auto simp add: loaded_globals_simps extract_known rule_score_cases)
qed

text \<open>
  The claim as it is written fails on a classifier that answers 5: the response reports
  5 as \<open>ml_score\<close> and the blend \<open>0.3 * 5 + 0.7 * 0.5\<close> as \<open>blended_score\<close>, which is
  above 1.
\<close>

theorem unclamped_blend_counterexample:
  "\<exists>r. scan_url (loaded_globals\<lparr>url_model := Some (\<lambda>x. 5)\<rparr>) known_world
             \<lparr>URLRequest.url = ''not a url''\<rparr> = Inr r
      \<and> r ''ml_score'' = Some (Num 5) \<and> \<not> (5 \<le> (1::real))
      \<and> r ''blended_score'' = Some (Num 1.85) \<and> \<not> (1.85 \<le> (1::real))"
proof -
  have "scan_url (loaded_globals\<lparr>url_model := Some (\<lambda>x. 5)\<rparr>) known_world
             \<lparr>URLRequest.url = ''not a url''\<rparr> =
     Inr [''ml_score'' \<mapsto> Num 5, ''domain_score'' \<mapsto> Num 0.5,
          ''blended_score'' \<mapsto> Num 1.85, ''risk'' \<mapsto> Str ''HIGH'',
          ''phishing'' \<mapsto> Bool True]"
    using scan_url_loaded [of "loaded_globals\<lparr>url_model := Some (\<lambda>x. 5)\<rparr>" "\<lambda>x. 5"
           "\<lambda>t. [real (length t)]" known_world "\<lparr>URLRequest.url = ''not a url''\<rparr>"
           "\<lparr>age = None, dns = False, ssl = False, entropy = 0\<rparr>"]
    by (simp add: loaded_globals_simps extract_unknown rule_score_cases URL_BLEND_def
          risk_level_def)
  then show ?thesis
    by simp
qed

end
